theory Spec2Isabelle
  imports Main "HOL-Library.Word"
begin

unbundle bit_operations_syntax

section \<open>Data model of the sync evaluater\<close>

text \<open>
  The four decision predicates of package \<open>sync\<close> read three kinds of data: the tracked
  \<open>FileInformation\<close> records of the file index, the \<open>os.FileInfo\<close> of a live local
  stat, and the \<open>remote.Change\<close> reported by the remote side. Go's \<open>int64\<close> is a
  64-bit word read in two's complement (\<open>sint\<close>) by the ordering comparisons.
\<close>

type_synonym int64 = "64 word"

text \<open>The fields of \<open>FileInformation\<close> that the evaluater reads.\<close>

record FileInformation =
  Name :: string
  Size :: int64
  Mtime :: int64
  IsDirectory :: bool
  IsSymbolicLink :: bool

text \<open>
  \<open>os.FileInfo\<close> is an interface; the record holds what its methods \<open>Mode()\<close>,
  \<open>IsDir()\<close>, \<open>ModTime().Unix()\<close> and \<open>Size()\<close> return. \<open>os.FileMode\<close> is a
  \<open>uint32\<close>, and \<open>os.ModeSymlink\<close> is its bit 27.
\<close>

record FileInfo =
  Mode :: "32 word"
  StatIsDir :: bool
  ModTimeUnix :: int64
  StatSize :: int64

definition ModeSymlink :: "32 word" where
  "ModeSymlink = push_bit 27 1"

text \<open>The fields of \<open>remote.Change\<close> that \<open>shouldDownload\<close> reads.\<close>

record Change =
  Path :: string
  MtimeUnix :: int64
  ChangeSize :: int64
  IsDir :: bool

text \<open>
  A matcher is a compiled pattern set with the one method \<open>MatchesPath\<close>; the fields
  \<open>ignoreMatcher\<close> and \<open>uploadIgnoreMatcher\<close> of \<open>Sync\<close> may be nil. The file map
  holds pointers, and a lookup that yields nil (absent key or nil pointer) is \<open>None\<close>.
\<close>

type_synonym matcher = "string \<Rightarrow> bool"

record FileIndex =
  fileMap :: "string \<rightharpoonup> FileInformation"

record Sync =
  fileIndex :: FileIndex
  ignoreMatcher :: "matcher option"
  uploadIgnoreMatcher :: "matcher option"

text \<open>\<open>m != nil && m.MatchesPath(p)\<close> for a nullable matcher.\<close>

definition MatchesPath :: "matcher option \<Rightarrow> string \<Rightarrow> bool" where
  "MatchesPath m p = (case m of None \<Rightarrow> False | Some f \<Rightarrow> f p)"

text \<open>
  The result of \<open>os.Stat\<close> is Go's pair of a \<open>FileInfo\<close> and an error, either of which
  may be nil; \<open>os.IsNotExist\<close> recognises one kind of error.
\<close>

datatype os_error = ErrNotExist | ErrOther string

definition IsNotExist :: "os_error \<Rightarrow> bool" where
  "IsNotExist e = (e = ErrNotExist)"

type_synonym stat_fn = "string \<Rightarrow> FileInfo option \<times> os_error option"

text \<open>The lines \<open>shouldRemoveLocal\<close> writes with \<open>s.log.Infof\<close>, with their arguments.\<close>

datatype skip_log =
    SkipChangeNil string
  | SkipStatReturned string os_error
  | SkipUnequalIsDir string
  | SkipModTimeGreater string int64 int64
  | SkipUnequalMtimeSize string int64 int64 int64 int64

section \<open>The decision predicates\<close>

definition shouldRemoveRemote :: "string \<Rightarrow> Sync \<Rightarrow> bool" where
  "shouldRemoveRemote relativePath s =
     (if MatchesPath (ignoreMatcher s) relativePath then False
      else if MatchesPath (uploadIgnoreMatcher s) relativePath then False
      else (case fileMap (fileIndex s) relativePath of
              None \<Rightarrow> False
            | Some tracked \<Rightarrow> if IsSymbolicLink tracked then False else True))"

definition shouldUpload :: "string \<Rightarrow> FileInfo option \<Rightarrow> Sync \<Rightarrow> bool \<Rightarrow> bool" where
  "shouldUpload relativePath stat s isInitial =
     (case stat of
        None \<Rightarrow> False
      | Some st \<Rightarrow>
          if MatchesPath (ignoreMatcher s) relativePath then False
          else if Mode st AND ModeSymlink \<noteq> 0 then False
          else (case fileMap (fileIndex s) relativePath of
                  None \<Rightarrow> True
                | Some tracked \<Rightarrow>
                    if StatIsDir st then False
                    else if IsSymbolicLink tracked then False
                    else if isInitial then
                      (if sint (ModTimeUnix st) \<le> sint (Mtime tracked) then False else True)
                    else
                      (if ModTimeUnix st = Mtime tracked \<and> StatSize st = Size tracked
                       then False else True)))"

definition shouldDownload :: "Change \<Rightarrow> Sync \<Rightarrow> bool" where
  "shouldDownload change s =
     (case fileMap (fileIndex s) (Path change) of
        Some tracked \<Rightarrow>
          if IsDir change = False then
            (if sint (Mtime tracked) < sint (MtimeUnix change) then True
             else if MtimeUnix change = Mtime tracked \<and> ChangeSize change \<noteq> Size tracked
               then True
             else False)
          else False
      | None \<Rightarrow> True)"

text \<open>
  \<open>shouldRemoveLocal\<close> stats the local path itself, so the file system is the parameter
  \<open>os_Stat\<close>; the result is the returned boolean together with the lines logged.
\<close>

definition shouldRemoveLocal ::
  "stat_fn \<Rightarrow> string \<Rightarrow> FileInformation option \<Rightarrow> Sync \<Rightarrow> bool \<times> skip_log list" where
  "shouldRemoveLocal os_Stat absFilepath fileInformation s =
     (case fileInformation of
        None \<Rightarrow> (False, [SkipChangeNil absFilepath])
      | Some fi \<Rightarrow>
          (case os_Stat absFilepath of
             (stat, Some err) \<Rightarrow>
               (False, if IsNotExist err = False then [SkipStatReturned absFilepath err] else [])
           | (stat, None) \<Rightarrow>
               (case (stat, fileMap (fileIndex s) (Name fi)) of
                  (Some st, Some tracked) \<Rightarrow>
                    if StatIsDir st \<noteq> IsDirectory tracked \<or> StatIsDir st \<noteq> IsDirectory fi
                    then (False, [SkipUnequalIsDir absFilepath])
                    else if IsDirectory fi = False then
                      (if Mtime fi = Mtime tracked \<and> Size fi = Size tracked then
                         (if sint (ModTimeUnix st) \<le> sint (Mtime fi) then (True, [])
                          else (False,
                                [SkipModTimeGreater absFilepath (ModTimeUnix st) (Mtime fi)]))
                       else (False,
                             [SkipUnequalMtimeSize absFilepath (Mtime fi) (Mtime tracked)
                                (Size fi) (Size tracked)]))
                    else (True, [])
                | _ \<Rightarrow> (False, []))))"

section \<open>Starting the services of the dev command\<close>

text \<open>
  Go's \<open>error\<close> values that occur in \<open>startServices\<close> and \<open>ExecBuffered\<close>:
  \<open>fmt.Errorf(msg + "%v", err)\<close>, \<open>errors.Wrap(err, msg)\<close>, the command's own
  \<open>reloadError\<close>, \<open>kubectlExec.CodeExitError\<close>, errors of the \<open>os\<close> package, and any
  other error a collaborator returns.
\<close>

datatype go_error =
    reloadError
  | CodeExitError string int
  | Errorf string go_error
  | Wrap go_error string
  | OsError os_error
  | OtherError string

text \<open>The flags of \<open>DevCmd\<close> that \<open>startServices\<close> reads.\<close>

record DevCmd =
  Sync :: bool
  Terminal :: bool
  SkipPipeline :: bool
  Portforwarding :: bool
  VerboseSync :: bool
  Selector :: string
  Container :: string
  LabelSelector :: string
  Namespace :: string

text \<open>
  \<open>targetselector.CmdParameter\<close>: four optional strings (fields \<open>Selector\<close>,
  \<open>ContainerName\<close>, \<open>LabelSelector\<close>, \<open>Namespace\<close>, here with the prefix \<open>param\<close>).
\<close>

record CmdParameter =
  paramSelector :: "string option"
  paramContainerName :: "string option"
  paramLabelSelector :: "string option"
  paramNamespace :: "string option"

text \<open>
  The collaborators of \<open>startServices\<close> live in other packages, so what their calls
  return is a parameter. Port forwarders and sync sessions are handles, identified by a
  number. \<open>StartPortForwarding\<close> and \<open>StartSync\<close> return Go's pair of a slice and an error.
  \<open>terminalEnabled\<close> is the configuration test
  \<open>config.Dev == nil || ... || *config.Dev.Terminal.Disabled == false\<close>, and
  \<open>exitChan\<close> is the value the final receive obtains, \<open>None\<close> when nothing is ever sent.
\<close>

type_synonym PortForwarder = nat
type_synonym SyncConfig = nat

record Services =
  StartPortForwarding :: "PortForwarder list \<times> go_error option"
  StartSync :: "bool \<Rightarrow> SyncConfig list \<times> go_error option"
  GetPaths :: "string list"
  watch_New :: "string list \<Rightarrow> go_error option"
  terminalEnabled :: bool
  StartTerminal :: "CmdParameter \<Rightarrow> string list \<Rightarrow> go_error option"
  StartAttach :: "CmdParameter \<Rightarrow> go_error option"
  exitChan :: "go_error option option"

text \<open>What \<open>startServices\<close> does to its collaborators, in the order it does it.\<close>

datatype event =
    PortForwarder_Close PortForwarder
  | SyncConfig_Stop SyncConfig "go_error option"
  | Watcher_Start
  | Watcher_Stop
  | Log_Info string
  | Log_Infof string go_error
  | Log_Done string

text \<open>
  A \<open>return\<close> runs the deferred calls, the last registered first; \<open>defers\<close> is that
  stack, each entry the events of one deferred function. The outcome is the returned
  error (\<open>Some None\<close> for nil), or \<open>None\<close> when the function never returns, and the
  events that happened.
\<close>

type_synonym outcome = "go_error option option \<times> event list"

definition returning :: "event list list \<Rightarrow> event list \<Rightarrow> go_error option \<Rightarrow> outcome" where
  "returning defers evs r = (Some r, evs @ concat defers)"

definition buildParams :: "DevCmd \<Rightarrow> CmdParameter" where
  "buildParams cmd =
     \<lparr> paramSelector = (if Selector cmd \<noteq> [] then Some (Selector cmd) else None),
       paramContainerName = (if Container cmd \<noteq> [] then Some (Container cmd) else None),
       paramLabelSelector = (if LabelSelector cmd \<noteq> [] then Some (LabelSelector cmd) else None),
       paramNamespace = (if Namespace cmd \<noteq> [] then Some (Namespace cmd) else None) \<rparr>"

text \<open>The type assertion \<open>err.(*reloadError)\<close>.\<close>

definition is_reloadError :: "go_error \<Rightarrow> bool" where
  "is_reloadError e = (case e of reloadError \<Rightarrow> True | _ \<Rightarrow> False)"

text \<open>From \<open>// Build params\<close> to the end of the function.\<close>

definition startServices_attach ::
  "DevCmd \<Rightarrow> Services \<Rightarrow> string list \<Rightarrow> event list list \<Rightarrow> event list \<Rightarrow> outcome" where
  "startServices_attach cmd env args defers evs =
     (let params = buildParams cmd in
      if Terminal cmd \<and> terminalEnabled env
      then returning defers evs (StartTerminal env params args)
      else
        (let evs1 = evs @ [Log_Info ''Will now try to print the logs of a running pod...''];
             err = StartAttach env params
         in if (case err of Some e \<Rightarrow> is_reloadError e | None \<Rightarrow> False)
            then returning defers evs1 err
            else
              (let evs2 = evs1 @
                     (case err of
                        Some e \<Rightarrow> [Log_Infof ''Couldn't print logs of running pod: '' e]
                      | None \<Rightarrow> []) @
                     [Log_Done
                        ''Services started (Press Ctrl+C to abort port-forwarding and sync)'']
               in case exitChan env of
                    None \<Rightarrow> (None, evs2)
                  | Some received \<Rightarrow> returning defers evs2 received)))"

text \<open>The watcher for the auto reload paths.\<close>

definition startServices_watch ::
  "DevCmd \<Rightarrow> Services \<Rightarrow> string list \<Rightarrow> event list list \<Rightarrow> outcome" where
  "startServices_watch cmd env args defers =
     (let autoReloadPaths = GetPaths env in
      if SkipPipeline cmd = False \<and> 0 < length autoReloadPaths then
        (case watch_New env autoReloadPaths of
           Some err \<Rightarrow> returning defers [] (Some err)
         | None \<Rightarrow> startServices_attach cmd env args ([Watcher_Stop] # defers) [Watcher_Start])
      else startServices_attach cmd env args defers [])"

text \<open>The \<open>if cmd.Sync\<close> block.\<close>

definition startServices_sync ::
  "DevCmd \<Rightarrow> Services \<Rightarrow> string list \<Rightarrow> event list list \<Rightarrow> outcome" where
  "startServices_sync cmd env args defers =
     (if Sync cmd then
        (case StartSync env (VerboseSync cmd) of
           (syncConfigs, Some err) \<Rightarrow>
             returning defers [] (Some (Errorf ''Unable to start sync: '' err))
         | (syncConfigs, None) \<Rightarrow>
             startServices_watch cmd env args
               (map (\<lambda>v. SyncConfig_Stop v None) syncConfigs # defers))
      else startServices_watch cmd env args defers)"

definition startServices :: "DevCmd \<Rightarrow> Services \<Rightarrow> string list \<Rightarrow> outcome" where
  "startServices cmd env args =
     (if Portforwarding cmd then
        (case StartPortForwarding env of
           (portForwarder, Some err) \<Rightarrow>
             returning [] [] (Some (Errorf ''Unable to start portforwarding: '' err))
         | (portForwarder, None) \<Rightarrow>
             startServices_sync cmd env args [map PortForwarder_Close portForwarder])
      else startServices_sync cmd env args [])"

section \<open>Buffered execution of a command in a container\<close>

text \<open>
  \<open>ExecBuffered\<close> works on temporary files. The file system maps a name to the bytes of
  the file; an open \<open>*os.File\<close> is its name and its read offset. A nil byte slice and
  an empty one are both the empty list.
\<close>

type_synonym byte = "8 word"
type_synonym filesystem = "string \<rightharpoonup> byte list"

record File =
  FileName :: string
  offset :: nat

text \<open>
  What the operating system and the cluster answer is a parameter: the result of the
  n-th \<open>ioutil.TempFile\<close> call (an error or the name of the new file), what the remote
  command writes to its stdout and stderr writers and the error \<open>ExecStream\<close> returns,
  an error of the n-th \<open>os.Open\<close> call, and an error of the n-th \<open>ReadFrom\<close> call
  together with the number of bytes read before it.
\<close>

record ExecEnv =
  TempFile :: "nat \<Rightarrow> os_error + string"
  ExecStream :: "string \<Rightarrow> string list \<Rightarrow> byte list \<Rightarrow> byte list \<times> byte list \<times> go_error option"
  Open_error :: "nat \<Rightarrow> os_error option"
  Read_error :: "nat \<Rightarrow> (nat \<times> os_error) option"

definition contents :: "filesystem \<Rightarrow> string \<Rightarrow> byte list" where
  "contents fs name = (case fs name of None \<Rightarrow> [] | Some bs \<Rightarrow> bs)"

text \<open>\<open>os.Open\<close>: a new handle at offset 0, or an error; a missing file is an error.\<close>

definition os_Open :: "ExecEnv \<Rightarrow> nat \<Rightarrow> filesystem \<Rightarrow> string \<Rightarrow> os_error + File" where
  "os_Open env n fs name =
     (case Open_error env n of
        Some err \<Rightarrow> Inl err
      | None \<Rightarrow>
          (case fs name of
             None \<Rightarrow> Inl ErrNotExist
           | Some bs \<Rightarrow> Inr \<lparr> FileName = name, offset = 0 \<rparr>))"

text \<open>
  \<open>(*bytes.Buffer).ReadFrom\<close> on a file: it reads from the handle's offset up to the end
  of the file, or up to a read error, and moves the offset by what it read. The result is
  the buffer's content, the handle afterwards and the error.
\<close>

definition ReadFrom ::
  "ExecEnv \<Rightarrow> nat \<Rightarrow> filesystem \<Rightarrow> File \<Rightarrow> byte list \<times> File \<times> os_error option" where
  "ReadFrom env n fs f =
     (let rest = drop (offset f) (contents fs (FileName f)) in
      case Read_error env n of
        Some (k, err) \<Rightarrow>
          (take k rest, f\<lparr>offset := offset f + length (take k rest)\<rparr>, Some err)
      | None \<Rightarrow> (rest, f\<lparr>offset := offset f + length rest\<rparr>, None))"

text \<open>\<open>os.Remove\<close>, whose error the deferred calls drop.\<close>

definition os_Remove :: "string \<Rightarrow> filesystem \<Rightarrow> filesystem" where
  "os_Remove name fs = fs(name := None)"

definition is_CodeExitError :: "go_error \<Rightarrow> bool" where
  "is_CodeExitError e = (case e of CodeExitError msg code \<Rightarrow> True | _ \<Rightarrow> False)"

text \<open>
  The part of \<open>ExecBuffered\<close> after the two \<open>Close\<close> calls. The variable
  \<open>stdoutOutput\<close> is reassigned by the first \<open>os.Open\<close> and read by both \<open>ReadFrom\<close>
  calls; \<open>stderrOutput\<close> is reassigned by the second \<open>os.Open\<close>, of
  \<open>stdoutOutput.Name()\<close>, and then not read.
\<close>

definition ExecBuffered_read ::
  "ExecEnv \<Rightarrow> filesystem \<Rightarrow> string \<Rightarrow> go_error option
     \<Rightarrow> byte list \<times> byte list \<times> go_error option" where
  "ExecBuffered_read env fs stdoutName kubeExecError =
     (case os_Open env 0 fs stdoutName of
        Inl err \<Rightarrow> ([], [], Some (Wrap (OsError err) ''open stdout file''))
      | Inr stdoutOutput \<Rightarrow>
          (case ReadFrom env 0 fs stdoutOutput of
             (stdoutBuffer, stdoutOutput, Some err) \<Rightarrow> ([], [], Some (OsError err))
           | (stdoutBuffer, stdoutOutput, None) \<Rightarrow>
               (case os_Open env 1 fs (FileName stdoutOutput) of
                  Inl err \<Rightarrow> ([], [], Some (Wrap (OsError err) ''open stderr file''))
                | Inr stderrOutput \<Rightarrow>
                    (case ReadFrom env 1 fs stdoutOutput of
                       (stderrBuffer, stdoutOutput, Some err) \<Rightarrow> ([], [], Some (OsError err))
                     | (stderrBuffer, stdoutOutput, None) \<Rightarrow>
                         (stdoutBuffer, stderrBuffer, kubeExecError)))))"

text \<open>
  \<open>ExecBuffered\<close>: the result triple and the file system it leaves. The two deferred
  \<open>os.Remove\<close> calls take the names the temporary files had when they were deferred and
  run at every later return, the stderr file's first.
\<close>

definition ExecBuffered ::
  "ExecEnv \<Rightarrow> filesystem \<Rightarrow> string \<Rightarrow> string list \<Rightarrow> byte list
     \<Rightarrow> (byte list \<times> byte list \<times> go_error option) \<times> filesystem" where
  "ExecBuffered env fs container command input =
     (case TempFile env 0 of
        Inl err \<Rightarrow> (([], [], Some (Wrap (OsError err) ''create temp file'')), fs)
      | Inr stdoutName \<Rightarrow>
          (let fs1 = fs(stdoutName \<mapsto> []) in
           case TempFile env 1 of
             Inl err \<Rightarrow>
               (([], [], Some (Wrap (OsError err) ''create temp file'')), os_Remove stdoutName fs1)
           | Inr stderrName \<Rightarrow>
               (let fs2 = fs1(stderrName \<mapsto> []);
                    (written_stdout, written_stderr, kubeExecError) =
                       ExecStream env container command input;
                    fs3 = fs2(stdoutName \<mapsto> contents fs2 stdoutName @ written_stdout);
                    fs4 = fs3(stderrName \<mapsto> contents fs3 stderrName @ written_stderr);
                    cleanup = os_Remove stdoutName (os_Remove stderrName fs4)
                in if (case kubeExecError of
                         Some e \<Rightarrow> is_CodeExitError e = False
                       | None \<Rightarrow> False)
                   then (([], [], kubeExecError), cleanup)
                   else (ExecBuffered_read env fs4 stdoutName kubeExecError, cleanup))))"

section \<open>Committing to the file index\<close>

text \<open>
  The upstream and downstream pipelines, which run the transfers and deletions and change
  the file index, are not among the sources at hand; this section follows the
  specification's account of them. It says: a transfer either completes and commits, or
  aborts without committing; a successful transfer commits a new record (mtime and size
  as observed on the transferred content) into the index in one step with the completion,
  never before the bytes are durably written; partial and aborted transfers are discarded
  and leave the index as it is; and an entry is removed only after a deletion is decided
  safe and executed successfully.
\<close>

text \<open>
  Modelled from the spec: how a transfer of the (missing) pipelines ends.
  \<open>Completed r\<close> is a transfer that succeeded with its bytes durably written, \<open>r\<close> the
  record observed on the transferred content; \<open>Partial n\<close> is a transfer that broke off
  after \<open>n\<close> bytes; \<open>Aborted\<close> is a transfer that was cancelled.
\<close>

datatype transfer_outcome =
    Completed FileInformation
  | Partial nat
  | Aborted

text \<open>
  Modelled from the spec: the events of the (missing) pipelines that concern the index.
  \<open>TransferEnded p outcome\<close> is the end of an upload or download of the path \<open>p\<close>;
  \<open>DeletionEnded p safe ok\<close> is a deletion of \<open>p\<close> that was decided safe or not, and
  executed successfully or not.
\<close>

datatype pipeline_event =
    TransferEnded string transfer_outcome
  | DeletionEnded string bool bool

text \<open>
  Modelled from the spec: the commit step of the (missing) pipelines, the effect of one
  event on the index. Only a completed transfer writes a record, and only a deletion
  that was decided safe and succeeded removes one.
\<close>

fun commitEvent :: "FileIndex \<Rightarrow> pipeline_event \<Rightarrow> FileIndex" where
  "commitEvent idx (TransferEnded p (Completed r)) = idx\<lparr>fileMap := (fileMap idx)(p \<mapsto> r)\<rparr>"
| "commitEvent idx (TransferEnded p (Partial n)) = idx"
| "commitEvent idx (TransferEnded p Aborted) = idx"
| "commitEvent idx (DeletionEnded p safe ok) =
     (if safe \<and> ok then idx\<lparr>fileMap := (fileMap idx)(p := None)\<rparr> else idx)"

text \<open>
  Modelled from the spec: the index after a sequence of events of the (missing)
  pipelines, each committed in one step, one after the other.
\<close>

fun commitAll :: "FileIndex \<Rightarrow> pipeline_event list \<Rightarrow> FileIndex" where
  "commitAll idx [] = idx"
| "commitAll idx (e # es) = commitAll (commitEvent idx e) es"

section \<open>Vocabulary of the statements\<close>

text \<open>No event of the list is a \<open>Stop\<close> call on a sync session.\<close>

definition no_Stop :: "event list \<Rightarrow> bool" where
  "no_Stop evs = (\<forall>e \<in> set evs. case e of SyncConfig_Stop v err \<Rightarrow> False | _ \<Rightarrow> True)"

text \<open>The deferred \<open>Close\<close> calls on the port forwarders that were started.\<close>

definition closes :: "DevCmd \<Rightarrow> Services \<Rightarrow> event list" where
  "closes cmd env =
     (if Portforwarding cmd then map PortForwarder_Close (fst (StartPortForwarding env)) else [])"

section \<open>Example inputs\<close>

text \<open>A tracked file \<open>app/main.go\<close>, an index that holds one record under that path, a
  live regular file (mode 0644) and a remote change of the same path.\<close>

definition tracked_file :: "int64 \<Rightarrow> int64 \<Rightarrow> FileInformation" where
  "tracked_file mtime sz =
     \<lparr> Name = ''app/main.go'', Size = sz, Mtime = mtime, IsDirectory = False,
       IsSymbolicLink = False \<rparr>"

definition sync_of :: "FileInformation \<Rightarrow> Sync" where
  "sync_of r =
     \<lparr> fileIndex = \<lparr> fileMap = [''app/main.go'' \<mapsto> r] \<rparr>,
       ignoreMatcher = None, uploadIgnoreMatcher = None \<rparr>"

definition live_file :: "int64 \<Rightarrow> int64 \<Rightarrow> FileInfo" where
  "live_file mtime sz = \<lparr> Mode = 420, StatIsDir = False, ModTimeUnix = mtime, StatSize = sz \<rparr>"

definition remote_file :: "int64 \<Rightarrow> int64 \<Rightarrow> Change" where
  "remote_file mtime sz =
     \<lparr> Path = ''app/main.go'', MtimeUnix = mtime, ChangeSize = sz, IsDir = False \<rparr>"

text \<open>A local file system with the one file \<open>/work/app/main.go\<close>.\<close>

definition stat_at :: "int64 \<Rightarrow> int64 \<Rightarrow> stat_fn" where
  "stat_at mtime sz =
     (\<lambda>p. if p = ''/work/app/main.go'' then (Some (live_file mtime sz), None)
          else (None, Some ErrNotExist))"

text \<open>A dev command with sync and port forwarding, and collaborators that start one port
  forwarder and either two sync sessions or none, with an error.\<close>

definition dev_cmd :: DevCmd where
  "dev_cmd =
     \<lparr> Sync = True, Terminal = False, SkipPipeline = False, Portforwarding = True,
       VerboseSync = False, Selector = [], Container = [], LabelSelector = [],
       Namespace = [] \<rparr>"

definition services_with :: "SyncConfig list \<times> go_error option \<Rightarrow> Services" where
  "services_with started =
     \<lparr> StartPortForwarding = ([7], None), StartSync = (\<lambda>verbose. started), GetPaths = [],
       watch_New = (\<lambda>paths. None), terminalEnabled = True,
       StartTerminal = (\<lambda>params args. None), StartAttach = (\<lambda>params. None),
       exitChan = Some None \<rparr>"

text \<open>A remote command that writes \<open>ok\<close> to stdout and \<open>warn\<close> to stderr and exits
  with code 0, on an operating system that reports no error.\<close>

definition exec_env :: ExecEnv where
  "exec_env =
     \<lparr> TempFile = (\<lambda>n. Inr (if n = 0 then ''/tmp/1'' else ''/tmp/2'')),
       ExecStream = (\<lambda>container command input. ([111, 107], [119, 97, 114, 110], None)),
       Open_error = (\<lambda>n. None), Read_error = (\<lambda>n. None) \<rparr>"

section \<open>Properties of the decision predicates\<close>

text \<open>
  C1. \<open>shouldRemoveLocal\<close> returns true exactly when the pending snapshot is not nil,
  the stat of the absolute path succeeds with an entry, a tracked record exists under the
  snapshot's name, the directory flag of the live stat agrees with that of the tracked record and with that
  of the snapshot, and, when the snapshot is a file, the snapshot's mtime and size equal
  the tracked record's and the live mtime is at most the snapshot's mtime. In every
  other case, a stat error of any kind among them, it returns false.
\<close>

theorem shouldRemoveLocal_true_iff:
  "(fst (shouldRemoveLocal os_Stat absFilepath fileInformation s) = True) =
   (\<exists>fi st tracked.
      fileInformation = Some fi \<and>
      os_Stat absFilepath = (Some st, None) \<and>
      fileMap (fileIndex s) (Name fi) = Some tracked \<and>
      StatIsDir st = IsDirectory tracked \<and>
      StatIsDir st = IsDirectory fi \<and>
      (\<not> IsDirectory fi \<longrightarrow>
         Mtime fi = Mtime tracked \<and> Size fi = Size tracked \<and>
         sint (ModTimeUnix st) \<le> sint (Mtime fi)))"
  by (auto simp: shouldRemoveLocal_def split: option.splits prod.splits)

theorem shouldRemoveLocal_true_iff_witness:
  "fst (shouldRemoveLocal (stat_at 500 10) ''/work/app/main.go''
          (Some (tracked_file 500 10)) (sync_of (tracked_file 500 10))) = True \<and>
   fst (shouldRemoveLocal (stat_at 600 10) ''/work/app/main.go''
          (Some (tracked_file 500 10)) (sync_of (tracked_file 500 10))) = False \<and>
   fst (shouldRemoveLocal (stat_at 500 10) ''/work/app/main.go''
          (Some (tracked_file 500 10)) (sync_of (tracked_file 501 10))) = False \<and>
   fst (shouldRemoveLocal (stat_at 500 10) ''/work/app/gone.go''
          (Some (tracked_file 500 10)) (sync_of (tracked_file 500 10))) = False \<and>
   fst (shouldRemoveLocal (stat_at 500 10) ''/work/app/main.go''
          None (sync_of (tracked_file 500 10))) = False"
  using
    shouldRemoveLocal_true_iff [of "stat_at 500 10" "''/work/app/main.go''"
      "Some (tracked_file 500 10)" "sync_of (tracked_file 500 10)"]
    shouldRemoveLocal_true_iff [of "stat_at 600 10" "''/work/app/main.go''"
      "Some (tracked_file 500 10)" "sync_of (tracked_file 500 10)"]
    shouldRemoveLocal_true_iff [of "stat_at 500 10" "''/work/app/main.go''"
      "Some (tracked_file 500 10)" "sync_of (tracked_file 501 10)"]
    shouldRemoveLocal_true_iff [of "stat_at 500 10" "''/work/app/gone.go''"
      "Some (tracked_file 500 10)" "sync_of (tracked_file 500 10)"]
    shouldRemoveLocal_true_iff [of "stat_at 500 10" "''/work/app/main.go''"
      None "sync_of (tracked_file 500 10)"]
  by (simp add: stat_at_def live_file_def tracked_file_def sync_of_def)

text \<open>
  C2. For a path with a tracked record, outside the initial pass, when the path is not
  ignored, the live entry is neither a symbolic link nor a directory and the tracked
  record is not a symbolic link, \<open>shouldUpload\<close> returns false if and only if the live
  mtime and size both equal the tracked record's.
\<close>

theorem shouldUpload_steady_false_iff:
  assumes "fileMap (fileIndex s) relativePath = Some tracked"
    and "\<not> MatchesPath (ignoreMatcher s) relativePath"
    and "Mode st AND ModeSymlink = 0"
    and "\<not> StatIsDir st"
    and "\<not> IsSymbolicLink tracked"
  shows "(shouldUpload relativePath (Some st) s False = False) =
         (ModTimeUnix st = Mtime tracked \<and> StatSize st = Size tracked)"
  using assms by (simp add: shouldUpload_def)

theorem shouldUpload_steady_false_iff_witness:
  "shouldUpload ''app/main.go'' (Some (live_file 1000 50))
     (sync_of (tracked_file 1000 50)) False = False \<and>
   shouldUpload ''app/main.go'' (Some (live_file 1001 55))
     (sync_of (tracked_file 1000 50)) False = True \<and>
   shouldUpload ''app/main.go'' (Some (live_file 1000 55))
     (sync_of (tracked_file 1000 50)) False = True"
  using
    shouldUpload_steady_false_iff [of "sync_of (tracked_file 1000 50)" "''app/main.go''"
      "tracked_file 1000 50" "live_file 1000 50"]
    shouldUpload_steady_false_iff [of "sync_of (tracked_file 1000 50)" "''app/main.go''"
      "tracked_file 1000 50" "live_file 1001 55"]
    shouldUpload_steady_false_iff [of "sync_of (tracked_file 1000 50)" "''app/main.go''"
      "tracked_file 1000 50" "live_file 1000 55"]
  by (simp add: sync_of_def tracked_file_def live_file_def MatchesPath_def ModeSymlink_def)

text \<open>
  C3. \<open>shouldDownload\<close>: with no tracked record the change is downloaded; with a tracked
  record a directory change is not; and a file change is downloaded exactly when its mtime
  is strictly greater than the tracked one, or equal with a different size.
\<close>

theorem shouldDownload_cases:
  "(fileMap (fileIndex s) (Path change) = None \<longrightarrow> shouldDownload change s = True) \<and>
   (fileMap (fileIndex s) (Path change) = Some tracked \<and> IsDir change
      \<longrightarrow> shouldDownload change s = False) \<and>
   (fileMap (fileIndex s) (Path change) = Some tracked \<and> \<not> IsDir change
      \<longrightarrow> (shouldDownload change s = True) =
           (sint (Mtime tracked) < sint (MtimeUnix change) \<or>
            (MtimeUnix change = Mtime tracked \<and> ChangeSize change \<noteq> Size tracked)))"
  by (simp add: shouldDownload_def)

theorem shouldDownload_cases_witness:
  "shouldDownload (remote_file 2000 120) (sync_of (tracked_file 1999 120)) = True \<and>
   shouldDownload (remote_file 2000 130) (sync_of (tracked_file 2000 120)) = True \<and>
   shouldDownload (remote_file 2000 120) (sync_of (tracked_file 2000 120)) = False \<and>
   shouldDownload ((remote_file 2000 120)\<lparr>IsDir := True\<rparr>)
     (sync_of (tracked_file 1999 120)) = False \<and>
   shouldDownload ((remote_file 2000 120)\<lparr>Path := ''app/new.go''\<rparr>)
     (sync_of (tracked_file 1999 120)) = True"
  using
    shouldDownload_cases [of "sync_of (tracked_file 1999 120)" "remote_file 2000 120"
      "tracked_file 1999 120"]
    shouldDownload_cases [of "sync_of (tracked_file 2000 120)" "remote_file 2000 130"
      "tracked_file 2000 120"]
    shouldDownload_cases [of "sync_of (tracked_file 2000 120)" "remote_file 2000 120"
      "tracked_file 2000 120"]
    shouldDownload_cases [of "sync_of (tracked_file 1999 120)"
      "(remote_file 2000 120)\<lparr>IsDir := True\<rparr>" "tracked_file 1999 120"]
    shouldDownload_cases [of "sync_of (tracked_file 1999 120)"
      "(remote_file 2000 120)\<lparr>Path := ''app/new.go''\<rparr>" "tracked_file 1999 120"]
  by (simp add: sync_of_def remote_file_def tracked_file_def)

text \<open>
  C4. For a path with a tracked record, in the initial pass, \<open>shouldUpload\<close> returns
  false whenever the live mtime is at most the tracked mtime, whatever the sizes are.
\<close>

theorem shouldUpload_initial_not_newer:
  assumes "fileMap (fileIndex s) relativePath = Some tracked"
    and "sint (ModTimeUnix st) \<le> sint (Mtime tracked)"
  shows "shouldUpload relativePath (Some st) s True = False"
  using assms by (simp add: shouldUpload_def)

theorem shouldUpload_initial_not_newer_witness:
  "shouldUpload ''app/main.go'' (Some (live_file 999 70))
     (sync_of (tracked_file 1000 50)) True = False \<and>
   shouldUpload ''app/main.go'' (Some (live_file 1000 70))
     (sync_of (tracked_file 1000 50)) True = False"
  using
    shouldUpload_initial_not_newer [of "sync_of (tracked_file 1000 50)" "''app/main.go''"
      "tracked_file 1000 50" "live_file 999 70"]
    shouldUpload_initial_not_newer [of "sync_of (tracked_file 1000 50)" "''app/main.go''"
      "tracked_file 1000 50" "live_file 1000 70"]
  by (simp add: sync_of_def tracked_file_def live_file_def)

text \<open>
  C5. \<open>shouldRemoveRemote\<close> returns true if and only if neither the general ignore
  matcher nor the upload exclusion matcher matches the path, a tracked record exists and
  it is not a symbolic link. The other three decisions do not depend on the upload
  exclusion matcher: replacing it by any other leaves their results as they are.
\<close>

theorem shouldRemoveRemote_iff:
  "(shouldRemoveRemote relativePath s = True) =
     (\<not> MatchesPath (ignoreMatcher s) relativePath \<and>
      \<not> MatchesPath (uploadIgnoreMatcher s) relativePath \<and>
      (\<exists>tracked. fileMap (fileIndex s) relativePath = Some tracked \<and>
                 \<not> IsSymbolicLink tracked)) \<and>
   shouldUpload relativePath stat (s\<lparr>uploadIgnoreMatcher := m\<rparr>) isInitial =
     shouldUpload relativePath stat s isInitial \<and>
   shouldDownload change (s\<lparr>uploadIgnoreMatcher := m\<rparr>) = shouldDownload change s \<and>
   shouldRemoveLocal os_Stat absFilepath fileInformation (s\<lparr>uploadIgnoreMatcher := m\<rparr>) =
     shouldRemoveLocal os_Stat absFilepath fileInformation s"
  by (auto simp: shouldRemoveRemote_def shouldUpload_def shouldDownload_def
        shouldRemoveLocal_def split: option.splits)

theorem shouldRemoveRemote_iff_witness:
  "shouldRemoveRemote ''app/main.go'' (sync_of (tracked_file 1000 50)) = True \<and>
   shouldRemoveRemote ''app/main.go''
     ((sync_of (tracked_file 1000 50))
        \<lparr>uploadIgnoreMatcher := Some (\<lambda>p. p = ''app/main.go'')\<rparr>) = False \<and>
   shouldRemoveRemote ''app/main.go''
     ((sync_of (tracked_file 1000 50))
        \<lparr>ignoreMatcher := Some (\<lambda>p. p = ''app/main.go'')\<rparr>) = False \<and>
   shouldRemoveRemote ''app/gone.go'' (sync_of (tracked_file 1000 50)) = False \<and>
   shouldRemoveRemote ''app/main.go''
     (sync_of ((tracked_file 1000 50)\<lparr>IsSymbolicLink := True\<rparr>)) = False"
  using
    shouldRemoveRemote_iff [of "''app/main.go''" "sync_of (tracked_file 1000 50)"]
    shouldRemoveRemote_iff [of "''app/main.go''"
      "(sync_of (tracked_file 1000 50))
         \<lparr>uploadIgnoreMatcher := Some (\<lambda>p. p = ''app/main.go'')\<rparr>"]
    shouldRemoveRemote_iff [of "''app/main.go''"
      "(sync_of (tracked_file 1000 50))\<lparr>ignoreMatcher := Some (\<lambda>p. p = ''app/main.go'')\<rparr>"]
    shouldRemoveRemote_iff [of "''app/gone.go''" "sync_of (tracked_file 1000 50)"]
    shouldRemoveRemote_iff [of "''app/main.go''"
      "sync_of ((tracked_file 1000 50)\<lparr>IsSymbolicLink := True\<rparr>)"]
  by (simp add: sync_of_def tracked_file_def MatchesPath_def)

text \<open>
  C7. Upload idempotence: once the index holds, for the path, a record that carries the
  mtime and size observed on the uploaded file, \<open>shouldUpload\<close> on the unchanged file
  (the same live mtime and size), outside the initial pass, returns false.
\<close>

theorem shouldUpload_after_commit:
  assumes "fileMap (fileIndex s) relativePath = Some committed"
    and "Mtime committed = ModTimeUnix st"
    and "Size committed = StatSize st"
  shows "shouldUpload relativePath (Some st) s False = False"
  using assms by (simp add: shouldUpload_def)

theorem shouldUpload_after_commit_witness:
  "shouldUpload ''app/main.go'' (Some (live_file 1700000000 4096))
     (sync_of (tracked_file 1700000000 4096)) False = False"
  using
    shouldUpload_after_commit [of "sync_of (tracked_file 1700000000 4096)" "''app/main.go''"
      "tracked_file 1700000000 4096" "live_file 1700000000 4096"]
  by (simp add: sync_of_def tracked_file_def live_file_def)

text \<open>
  C8. For a path that the ignore patterns do not match, with a live stat that is not a
  symbolic link and no tracked record in the index, \<open>shouldUpload\<close> returns true, in
  the initial pass and after it. \<open>shouldUpload\<close> is a total function into the booleans,
  and without a live stat it returns false.
\<close>

theorem shouldUpload_untracked:
  "(fileMap (fileIndex s) relativePath = None \<and>
    \<not> MatchesPath (ignoreMatcher s) relativePath \<and>
    Mode st AND ModeSymlink = 0
      \<longrightarrow> shouldUpload relativePath (Some st) s isInitial = True) \<and>
   shouldUpload relativePath None s isInitial = False"
  by (simp add: shouldUpload_def)

theorem shouldUpload_untracked_witness:
  "shouldUpload ''app/new.go'' (Some (live_file 1000 50))
     (sync_of (tracked_file 1000 50)) False = True \<and>
   shouldUpload ''app/new.go'' (Some (live_file 1000 50))
     (sync_of (tracked_file 1000 50)) True = True \<and>
   shouldUpload ''app/new.go'' None (sync_of (tracked_file 1000 50)) False = False"
  using
    shouldUpload_untracked [of "sync_of (tracked_file 1000 50)" "''app/new.go''"
      "live_file 1000 50" False]
    shouldUpload_untracked [of "sync_of (tracked_file 1000 50)" "''app/new.go''"
      "live_file 1000 50" True]
  by (simp add: sync_of_def tracked_file_def live_file_def MatchesPath_def ModeSymlink_def)

section \<open>The file index under transfers and deletions\<close>

lemma commitEvent_Some:
  "fileMap (commitEvent idx e) p = Some r \<Longrightarrow> fileMap idx p \<noteq> Some r
     \<Longrightarrow> e = TransferEnded p (Completed r)"
  by (induction idx e rule: commitEvent.induct) (auto split: if_splits)

lemma commitEvent_None:
  "fileMap (commitEvent idx e) p = None \<Longrightarrow> fileMap idx p \<noteq> None
     \<Longrightarrow> e = DeletionEnded p True True"
  by (induction idx e rule: commitEvent.induct) (auto split: if_splits)

lemma commitAll_Some:
  "fileMap (commitAll idx es) p = Some r \<Longrightarrow> fileMap idx p \<noteq> Some r
     \<Longrightarrow> TransferEnded p (Completed r) \<in> set es"
proof (induction es arbitrary: idx)
  case Nil
  then show ?case by simp
next
  case (Cons e es)
  show ?case
  proof (cases "fileMap (commitEvent idx e) p = Some r")
    case True
    with Cons.prems(2) have "e = TransferEnded p (Completed r)"
      by (blast dest: commitEvent_Some)
    then show ?thesis by simp
  next
    case False
    with Cons.prems(1) have "TransferEnded p (Completed r) \<in> set es"
      by (auto intro: Cons.IH)
    then show ?thesis by simp
  qed
qed

lemma commitAll_None:
  "fileMap (commitAll idx es) p = None \<Longrightarrow> fileMap idx p \<noteq> None
     \<Longrightarrow> DeletionEnded p True True \<in> set es"
proof (induction es arbitrary: idx)
  case Nil
  then show ?case by simp
next
  case (Cons e es)
  show ?case
  proof (cases "fileMap (commitEvent idx e) p = None")
    case True
    with Cons.prems(2) have "e = DeletionEnded p True True"
      by (blast dest: commitEvent_None)
    then show ?thesis by simp
  next
    case False
    with Cons.prems(1) have "DeletionEnded p True True \<in> set es"
      by (auto intro: Cons.IH)
    then show ?thesis by simp
  qed
qed

text \<open>
  C6. A transfer that aborts or completes only in part leaves the file index as it was,
  and so does a deletion that was not decided safe or did not succeed. Over any sequence
  of pipeline events, a path holds a record it did not hold before only if a transfer of
  that path completed with that record, and a path loses its record only if a deletion
  of it was decided safe and succeeded; so a file received in part is never recorded.
\<close>

theorem index_changed_only_by_commit:
  "((\<forall>r. outcome \<noteq> Completed r) \<longrightarrow> commitEvent idx (TransferEnded p outcome) = idx) \<and>
   (\<not> (safe \<and> ok) \<longrightarrow> commitEvent idx (DeletionEnded p safe ok) = idx) \<and>
   (fileMap (commitAll idx es) p = Some r \<and> fileMap idx p \<noteq> Some r
      \<longrightarrow> TransferEnded p (Completed r) \<in> set es) \<and>
   (fileMap (commitAll idx es) p = None \<and> fileMap idx p \<noteq> None
      \<longrightarrow> DeletionEnded p True True \<in> set es)"
proof (intro conjI impI)
  assume "\<forall>r. outcome \<noteq> Completed r"
  then show "commitEvent idx (TransferEnded p outcome) = idx"
    by (cases outcome) simp_all
next
  assume "\<not> (safe \<and> ok)"
  then show "commitEvent idx (DeletionEnded p safe ok) = idx" by auto
next
  assume "fileMap (commitAll idx es) p = Some r \<and> fileMap idx p \<noteq> Some r"
  then show "TransferEnded p (Completed r) \<in> set es"
    by (blast intro: commitAll_Some)
next
  assume "fileMap (commitAll idx es) p = None \<and> fileMap idx p \<noteq> None"
  then show "DeletionEnded p True True \<in> set es"
    by (blast intro: commitAll_None)
qed

theorem index_changed_only_by_commit_witness:
  "commitEvent (fileIndex (sync_of (tracked_file 1000 50)))
     (TransferEnded ''app/main.go'' (Partial 17)) = fileIndex (sync_of (tracked_file 1000 50)) \<and>
   commitEvent (fileIndex (sync_of (tracked_file 1000 50)))
     (DeletionEnded ''app/main.go'' True False) = fileIndex (sync_of (tracked_file 1000 50)) \<and>
   fileMap (commitAll (fileIndex (sync_of (tracked_file 1000 50)))
              [TransferEnded ''app/main.go'' Aborted,
               TransferEnded ''app/main.go'' (Completed (tracked_file 1001 55)),
               TransferEnded ''app/main.go'' (Partial 3)]) ''app/main.go''
     = Some (tracked_file 1001 55) \<and>
   fileMap (commitAll (fileIndex (sync_of (tracked_file 1000 50)))
              [DeletionEnded ''app/main.go'' False True,
               DeletionEnded ''app/main.go'' True True]) ''app/main.go'' = None"
  using
    index_changed_only_by_commit [of "Partial 17" "fileIndex (sync_of (tracked_file 1000 50))"
      "''app/main.go''" True False
      "[TransferEnded ''app/main.go'' Aborted,
        TransferEnded ''app/main.go'' (Completed (tracked_file 1001 55)),
        TransferEnded ''app/main.go'' (Partial 3)]" "tracked_file 1001 55"]
    index_changed_only_by_commit [of "Partial 17" "fileIndex (sync_of (tracked_file 1000 50))"
      "''app/main.go''" True False
      "[DeletionEnded ''app/main.go'' False True,
        DeletionEnded ''app/main.go'' True True]" "tracked_file 1001 55"]
  by (simp add: sync_of_def tracked_file_def)

section \<open>Sync sessions in \<open>startServices\<close>\<close>

lemma no_Stop_simps:
  "no_Stop []"
  "no_Stop (e # evs) = ((case e of SyncConfig_Stop v err \<Rightarrow> False | _ \<Rightarrow> True) \<and> no_Stop evs)"
  "no_Stop (xs @ ys) = (no_Stop xs \<and> no_Stop ys)"
  by (auto simp: no_Stop_def)

lemma attach_returns:
  assumes "startServices_attach cmd env args defers evs = (Some r, tr)"
  shows "\<exists>body. tr = evs @ body @ concat defers \<and> no_Stop body"
proof -
  let ?info = "Log_Info ''Will now try to print the logs of a running pod...''"
  let ?done = "Log_Done ''Services started (Press Ctrl+C to abort port-forwarding and sync)''"
  let ?err = "StartAttach env (buildParams cmd)"
  let ?inf = "case ?err of
                Some e \<Rightarrow> [Log_Infof ''Couldn't print logs of running pod: '' e]
              | None \<Rightarrow> []"
  from assms consider
      "tr = evs @ [] @ concat defers"
    | "tr = evs @ [?info] @ concat defers"
    | "tr = evs @ ([?info] @ ?inf @ [?done]) @ concat defers"
    by (auto simp: startServices_attach_def returning_def Let_def
        split: if_splits option.splits)
  then show ?thesis
  proof cases
    case 1
    then show ?thesis using no_Stop_simps(1) by blast
  next
    case 2
    moreover have "no_Stop [?info]" by (simp add: no_Stop_simps)
    ultimately show ?thesis by blast
  next
    case 3
    moreover have "no_Stop ([?info] @ ?inf @ [?done])"
      by (simp add: no_Stop_simps split: option.splits)
    ultimately show ?thesis by blast
  qed
qed

lemma watch_returns:
  assumes "startServices_watch cmd env args defers = (Some r, tr)"
  shows "\<exists>body. tr = body @ concat defers \<and> no_Stop body"
proof (cases "SkipPipeline cmd = False \<and> 0 < length (GetPaths env)")
  case False
  with assms have "startServices_attach cmd env args defers [] = (Some r, tr)"
    by (auto simp: startServices_watch_def Let_def)
  from attach_returns [OF this] show ?thesis by simp
next
  case True
  show ?thesis
  proof (cases "watch_New env (GetPaths env)")
    case (Some err)
    with True assms have "tr = [] @ concat defers"
      by (simp add: startServices_watch_def returning_def Let_def)
    then show ?thesis using no_Stop_simps(1) by blast
  next
    case None
    with True assms have
      "startServices_attach cmd env args ([Watcher_Stop] # defers) [Watcher_Start] = (Some r, tr)"
      by (simp add: startServices_watch_def Let_def)
    from attach_returns [OF this] obtain body
      where tr: "tr = [Watcher_Start] @ body @ concat ([Watcher_Stop] # defers)"
        and body: "no_Stop body" by blast
    from tr have "tr = ([Watcher_Start] @ body @ [Watcher_Stop]) @ concat defers" by simp
    moreover from body have "no_Stop ([Watcher_Start] @ body @ [Watcher_Stop])"
      by (simp add: no_Stop_simps)
    ultimately show ?thesis by blast
  qed
qed

lemma attach_returns_if_sent:
  "exitChan env = Some v \<Longrightarrow> \<exists>r. fst (startServices_attach cmd env args defers evs) = Some r"
  by (simp add: startServices_attach_def returning_def Let_def)

lemma watch_returns_if_sent:
  "exitChan env = Some v \<Longrightarrow> \<exists>r. fst (startServices_watch cmd env args defers) = Some r"
  by (auto simp: startServices_watch_def returning_def Let_def split: option.splits
      intro: attach_returns_if_sent)

text \<open>
  C9. With sync enabled and port forwarding started (or disabled): when \<open>StartSync\<close>
  returns an error, \<open>startServices\<close> returns the error
  \<open>Unable to start sync: ...\<close>, and all it did is close the port forwarders, so no
  sync session is stopped or handed on; the result is an error value and holds no
  handle. When \<open>StartSync\<close> succeeds, \<open>startServices\<close> returns whenever a value
  arrives on the exit channel, and whenever it returns the events end with \<open>Stop(nil)\<close>
  on each started session, in order, followed by the closing of the port forwarders, and
  no other \<open>Stop\<close> call happened before.
\<close>

theorem startServices_sync_sessions:
  assumes "Sync cmd"
    and "Portforwarding cmd \<longrightarrow> snd (StartPortForwarding env) = None"
  shows "(StartSync env (VerboseSync cmd) = (syncConfigs, Some err) \<longrightarrow>
            startServices cmd env args =
              (Some (Some (Errorf ''Unable to start sync: '' err)), closes cmd env)) \<and>
         (StartSync env (VerboseSync cmd) = (syncConfigs, None) \<longrightarrow>
            (\<forall>v. exitChan env = Some v \<longrightarrow> (\<exists>r. fst (startServices cmd env args) = Some r)) \<and>
            (\<forall>r tr. startServices cmd env args = (Some r, tr) \<longrightarrow>
               (\<exists>body. tr = body @ map (\<lambda>v. SyncConfig_Stop v None) syncConfigs @ closes cmd env
                  \<and> no_Stop body)))"
proof -
  have start: "startServices cmd env args = startServices_sync cmd env args [closes cmd env]"
    if "Portforwarding cmd"
    using that assms(2)
    by (cases "StartPortForwarding env") (simp add: startServices_def closes_def)
  have start': "startServices cmd env args = startServices_sync cmd env args []"
    and closes': "closes cmd env = []"
    if "\<not> Portforwarding cmd"
    using that by (simp_all add: startServices_def closes_def)
  obtain defers where run: "startServices cmd env args = startServices_sync cmd env args defers"
    and defers: "concat defers = closes cmd env"
    using start start' closes' by (cases "Portforwarding cmd") auto
  show ?thesis
  proof (intro conjI impI allI)
    assume "StartSync env (VerboseSync cmd) = (syncConfigs, Some err)"
    with assms(1) run defers
    show "startServices cmd env args =
            (Some (Some (Errorf ''Unable to start sync: '' err)), closes cmd env)"
      by (simp add: startServices_sync_def returning_def)
  next
    fix v
    assume ok: "StartSync env (VerboseSync cmd) = (syncConfigs, None)"
      and "exitChan env = Some v"
    then show "\<exists>r. fst (startServices cmd env args) = Some r"
      using assms(1) run by (simp add: startServices_sync_def watch_returns_if_sent)
  next
    fix r tr
    assume ok: "StartSync env (VerboseSync cmd) = (syncConfigs, None)"
      and ret: "startServices cmd env args = (Some r, tr)"
    from ok ret assms(1) run have
      "startServices_watch cmd env args
         (map (\<lambda>v. SyncConfig_Stop v None) syncConfigs # defers) = (Some r, tr)"
      by (simp add: startServices_sync_def)
    from watch_returns [OF this] defers
    show "\<exists>body. tr = body @ map (\<lambda>v. SyncConfig_Stop v None) syncConfigs @ closes cmd env
            \<and> no_Stop body"
      by simp
  qed
qed

theorem startServices_sync_sessions_witness:
  "startServices dev_cmd (services_with ([], Some (OtherError ''no pod found''))) [] =
     (Some (Some (Errorf ''Unable to start sync: '' (OtherError ''no pod found''))),
      [PortForwarder_Close 7]) \<and>
   startServices dev_cmd (services_with ([1, 2], None)) [] =
     (Some None,
      [Log_Info ''Will now try to print the logs of a running pod...'',
       Log_Done ''Services started (Press Ctrl+C to abort port-forwarding and sync)'',
       SyncConfig_Stop 1 None, SyncConfig_Stop 2 None, PortForwarder_Close 7])"
  using
    startServices_sync_sessions [of dev_cmd "services_with ([], Some (OtherError ''no pod found''))"
      "[]" "OtherError ''no pod found''" "[]"]
    startServices_sync_sessions [of dev_cmd "services_with ([1, 2], None)" "[1, 2]"
      reloadError "[]"]
  by (simp add: dev_cmd_def services_with_def startServices_def startServices_sync_def
      startServices_watch_def startServices_attach_def returning_def is_reloadError_def
      buildParams_def closes_def)

section \<open>The stderr result of \<open>ExecBuffered\<close>\<close>

lemma ReadFrom_twice:
  assumes "ReadFrom env n fs f = (b, f', None)"
  shows "fst (ReadFrom env m fs f') = []"
proof -
  from assms have name: "FileName f' = FileName f"
    and off: "offset f' = offset f + length (drop (offset f) (contents fs (FileName f)))"
    by (auto simp: ReadFrom_def Let_def split: option.splits prod.splits)
  from off have "length (contents fs (FileName f)) \<le> offset f'" by simp
  with name have "drop (offset f') (contents fs (FileName f')) = []" by simp
  then show ?thesis
    by (simp add: ReadFrom_def Let_def split: option.splits prod.splits)
qed

lemma ExecBuffered_read_stderr:
  "ExecBuffered_read env fs stdoutName kubeExecError = (out, errOut, r) \<Longrightarrow> errOut = []"
  by (auto simp: ExecBuffered_read_def split: sum.splits prod.splits option.splits
      dest: ReadFrom_twice [where m = 1])

text \<open>
  C10. Whenever \<open>ExecBuffered\<close> returns with a nil error or a \<open>CodeExitError\<close>, the
  stderr bytes it returns are empty, whatever the remote command wrote to stderr: the
  second \<open>os.Open\<close> opens the stdout file again, and the stderr buffer is filled from the
  stdout handle, which the first \<open>ReadFrom\<close> has already read to its end. (The returns
  with any other error pass nil for both byte slices.)
\<close>

theorem ExecBuffered_stderr_empty:
  assumes "ExecBuffered env fs container command input = ((out, errOut, r), fs')"
    and "r = None \<or> (\<exists>msg code. r = Some (CodeExitError msg code))"
  shows "errOut = []"
  using assms(1)
  by (auto simp: ExecBuffered_def Let_def split: sum.splits prod.splits if_splits
      dest: ExecBuffered_read_stderr)

theorem ExecBuffered_stderr_empty_witness:
  "fst (ExecBuffered exec_env Map.empty ''app'' [''ls''] []) = ([111, 107], [], None) \<and>
   fst (snd (ExecStream exec_env ''app'' [''ls''] [])) = [119, 97, 114, 110]"
  using
    ExecBuffered_stderr_empty [of exec_env Map.empty "''app''" "[''ls'']" "[]" "[111, 107]"
      "fst (snd (fst (ExecBuffered exec_env Map.empty ''app'' [''ls''] [])))" None
      "snd (ExecBuffered exec_env Map.empty ''app'' [''ls''] [])"]
  by (simp add: exec_env_def ExecBuffered_def ExecBuffered_read_def os_Open_def ReadFrom_def
      contents_def os_Remove_def is_CodeExitError_def Let_def)

end
